theory Spec2Isabelle
  imports Main
begin

section \<open>ValoStat: the match tracker of \<^verbatim>\<open>valorant_tracker.py\<close>\<close>

text \<open>
  A shallow embedding of the three pieces of \<^verbatim>\<open>valorant_tracker.py\<close> that
  carry behaviour: \<^verbatim>\<open>debug_log\<close>, \<^verbatim>\<open>load_api_key\<close> and the class
  \<^verbatim>\<open>MatchTracker\<close> (\<^verbatim>\<open>fetch_match_status\<close> and \<^verbatim>\<open>run\<close>).
  What the program reads from outside (the configuration file, the answer of the remote
  endpoint, a request to stop the thread) is an explicit input; what it writes (console,
  log file, HTTP requests, signal emissions, sleeping) is a field of an explicit state.
\<close>

subsection \<open>Strings\<close>

text \<open>
  A Python \<^verbatim>\<open>str\<close> is modelled as a \<^typ>\<open>string\<close>, one \<^typ>\<open>char\<close> per
  code point below 256. \<^verbatim>\<open>str.strip()\<close> without an argument removes the
  characters for which \<^verbatim>\<open>str.isspace\<close> holds; in that range these are
  U+0009 to U+000D, U+001C to U+0020, U+0085 and U+00A0.
\<close>

definition whitespace :: "char list" where
  "whitespace =
     [CHR 0x09, CHR 0x0A, CHR 0x0B, CHR 0x0C, CHR 0x0D,
      CHR 0x1C, CHR 0x1D, CHR 0x1E, CHR 0x1F, CHR 0x20, CHR 0x85, CHR 0xA0]"

definition isspace :: "char \<Rightarrow> bool" where
  "isspace c = (c \<in> set whitespace)"

definition lstrip :: "string \<Rightarrow> string" where
  "lstrip s = dropWhile isspace s"

definition rstrip :: "string \<Rightarrow> string" where
  "rstrip s = rev (dropWhile isspace (rev s))"

definition strip :: "string \<Rightarrow> string" where
  "strip s = rstrip (lstrip s)"

text \<open>\<^verbatim>\<open>hay.startswith(needle)\<close>.\<close>

fun startswith :: "string \<Rightarrow> string \<Rightarrow> bool" where
  "startswith hay [] = True"
| "startswith [] (n # ns) = False"
| "startswith (h # hs) (n # ns) = (h = n \<and> startswith hs ns)"

text \<open>\<^verbatim>\<open>needle in hay\<close>: the needle starts at some position of the hay.\<close>

fun str_in :: "string \<Rightarrow> string \<Rightarrow> bool" where
  "str_in needle [] = startswith [] needle"
| "str_in needle (h # hs) = (startswith (h # hs) needle \<or> str_in needle hs)"

subsection \<open>The state the program acts on\<close>

text \<open>
  \<^verbatim>\<open>requests.get(url, headers=headers)\<close> is handed a URL and a dictionary of
  headers; the value of a header is \<^verbatim>\<open>None\<close> when the key was not loaded.
  The call either returns a response, of which the program reads only
  \<^verbatim>\<open>status_code\<close>, or raises an exception (an instance of
  \<^verbatim>\<open>Exception\<close>), of which the program reads only \<^verbatim>\<open>str(e)\<close>.
\<close>

record request =
  url :: string
  headers :: "(string \<times> string option) list"

datatype http_outcome = Response int | Raises string

type_synonym network = "request \<Rightarrow> http_outcome"

text \<open>
  \<^verbatim>\<open>console\<close>: the lines printed to standard output.
  \<^verbatim>\<open>logfile\<close>: the records handed to \<^verbatim>\<open>logging.debug\<close>, each with its level.
  \<^verbatim>\<open>sent\<close>: the requests handed to \<^verbatim>\<open>requests.get\<close>, in order.
  \<^verbatim>\<open>emitted\<close>: the strings emitted on \<^verbatim>\<open>match_data_signal\<close>, in order.
  \<^verbatim>\<open>slept\<close>: the seconds spent in \<^verbatim>\<open>time.sleep\<close>.
  \<^verbatim>\<open>interruption_requested\<close>: the flag that
  \<^verbatim>\<open>QThread.requestInterruption()\<close> sets on the thread object.
\<close>

record world =
  console :: "string list"
  logfile :: "(string \<times> string) list"
  sent :: "request list"
  emitted :: "string list"
  slept :: nat
  interruption_requested :: bool

definition world0 :: world where
  "world0 = \<lparr>console = [], logfile = [], sent = [], emitted = [], slept = 0,
     interruption_requested = False\<rparr>"

subsection \<open>\<^verbatim>\<open>debug_log\<close>\<close>

text \<open>
  \<^verbatim>\<open>print("[DEBUG]:", message)\<close> writes the two arguments separated by a blank;
  \<^verbatim>\<open>logging.debug(message)\<close> appends a record of level DEBUG (the root logger is
  configured at level DEBUG with a file handler). Both calls are taken to succeed.
\<close>

definition debug_log :: "string \<Rightarrow> world \<Rightarrow> world" where
  "debug_log message w =
     w\<lparr>console := console w @ [''[DEBUG]: '' @ message],
       logfile := logfile w @ [(''DEBUG'', message)]\<rparr>"

subsection \<open>\<^verbatim>\<open>load_api_key\<close>\<close>

text \<open>
  What \<^verbatim>\<open>json.load\<close> returns: \<^verbatim>\<open>None\<close>, a bool, a number, a string, a list
  or a dict with string keys. A dict is an association list read with
  \<^const>\<open>map_of\<close>. Of a number only its being a number matters here.
\<close>

datatype json =
    JNull
  | JBool bool
  | JNumber int
  | JString string
  | JArray "json list"
  | JObject "(string \<times> json) list"

text \<open>
  The configuration file as \<^verbatim>\<open>load_api_key\<close> meets it:
  \<^item> \<open>NoFile\<close>: \<^verbatim>\<open>os.path.exists(CONFIG_FILE)\<close> is false;
  \<^item> \<open>Unopenable\<close>: the path exists and \<^verbatim>\<open>open\<close> raises (a directory, no
    permission);
  \<^item> \<open>LoadRaises e\<close>: the file opens and \<^verbatim>\<open>json.load\<close> raises \<open>e\<close>, for
    whatever reason: the bytes are not UTF-8 (\<^verbatim>\<open>UnicodeDecodeError\<close>), the text is
    not a JSON document (\<^verbatim>\<open>JSONDecodeError\<close>), a number of the document has more
    digits than the interpreter converts (\<^verbatim>\<open>ValueError\<close>), the document is nested
    deeper than the interpreter recurses (\<^verbatim>\<open>RecursionError\<close>), reading fails
    (\<^verbatim>\<open>OSError\<close>);
  \<^item> \<open>Document j\<close>: \<^verbatim>\<open>json.load\<close> returns \<open>j\<close>.
\<close>

datatype error =
  OSError | UnicodeDecodeError | JSONDecodeError | ValueError | RecursionError | AttributeError

datatype config_file = NoFile | Unopenable | LoadRaises error | Document json

definition marker :: string where
  "marker = ''RGAPI-''"

text \<open>\<^verbatim>\<open>config.get("api_key", "")\<close> on a dict.\<close>

definition dict_get :: "(string \<times> json) list \<Rightarrow> string \<Rightarrow> json \<Rightarrow> json" where
  "dict_get d k dflt = (case map_of d k of None \<Rightarrow> dflt | Some v \<Rightarrow> v)"

text \<open>
  \<^verbatim>\<open>
  def load_api_key():
      if not os.path.exists(CONFIG_FILE):
          debug_log("Config file not found. Please update tracker_config.json.")
          return None
      with open(CONFIG_FILE, "r", encoding="utf-8") as f:
          config = json.load(f)
          api_key = config.get("api_key", "").strip()
          return api_key if api_key and "RGAPI-" in api_key else None
  \<close>
  There is no \<^verbatim>\<open>try\<close> in the function: what \<^verbatim>\<open>open\<close>, \<^verbatim>\<open>json.load\<close>,
  \<^verbatim>\<open>.get\<close> (on a value that is not a dict) and \<^verbatim>\<open>.strip\<close> (on a value that is
  not a string) raise leaves the function, \<open>Inl\<close> here.
\<close>

definition load_api_key :: "config_file \<Rightarrow> world \<Rightarrow> error + (string option \<times> world)" where
  "load_api_key cf w =
     (case cf of
        NoFile \<Rightarrow>
          Inr (None, debug_log ''Config file not found. Please update tracker_config.json.'' w)
      | Unopenable \<Rightarrow> Inl OSError
      | LoadRaises e \<Rightarrow> Inl e
      | Document config \<Rightarrow>
          (case config of
             JObject d \<Rightarrow>
               (case dict_get d ''api_key'' (JString '''') of
                  JString s \<Rightarrow>
                    (let api_key = strip s
                     in Inr (if api_key \<noteq> [] \<and> str_in marker api_key
                             then Some api_key else None, w))
                | _ \<Rightarrow> Inl AttributeError)
           | _ \<Rightarrow> Inl AttributeError))"

subsection \<open>\<^verbatim>\<open>MatchTracker\<close>\<close>

definition status_url :: string where
  "status_url = ''https://americas.api.riotgames.com/valorant/v1/matches''"

definition status_request :: "string option \<Rightarrow> request" where
  "status_request key = \<lparr>url = status_url, headers = [(''X-Riot-Token'', key)]\<rparr>"

definition match_active :: string where
  "match_active = ''Match Active - Data Retrieved!''"

definition no_active_match :: string where
  "no_active_match = ''No Active Match Found.''"

definition error_fetching :: string where
  "error_fetching = ''Error fetching data.''"

text \<open>
  \<^verbatim>\<open>
  def fetch_match_status(self):
      url = "https://americas.api.riotgames.com/valorant/v1/matches"
      headers = {"X-Riot-Token": RIOT_API_KEY}
      try:
          response = requests.get(url, headers=headers)
          if response.status_code == 200:
              return "Match Active - Data Retrieved!"
          else:
              return "No Active Match Found."
      except Exception as e:
          debug_log(f"API Error: {e}")
          return "Error fetching data."
  \<close>
  The first argument is the module's global \<^verbatim>\<open>RIOT_API_KEY\<close>.
\<close>

definition fetch_match_status :: "string option \<Rightarrow> network \<Rightarrow> world \<Rightarrow> string \<times> world" where
  "fetch_match_status RIOT_API_KEY net w =
     (let req = status_request RIOT_API_KEY;
          w1 = w\<lparr>sent := sent w @ [req]\<rparr>
      in case net req of
           Response status_code \<Rightarrow>
             (if status_code = 200 then (match_active, w1) else (no_active_match, w1))
         | Raises e \<Rightarrow> (error_fetching, debug_log (''API Error: '' @ e) w1))"

text \<open>
  One pass of the loop body of \<^verbatim>\<open>run\<close> happens in an environment: the network that
  answers this pass's request, and whether another thread asks the tracker to stop
  (\<^verbatim>\<open>requestInterruption()\<close>) while the pass is under way.
\<close>

record tick =
  network :: network
  stop_requested :: bool

definition deliver_stop :: "tick \<Rightarrow> world \<Rightarrow> world" where
  "deliver_stop t w =
     w\<lparr>interruption_requested := interruption_requested w \<or> stop_requested t\<rparr>"

text \<open>
  \<^verbatim>\<open>
  def run(self):
      while True:
          match_status = self.fetch_match_status()
          self.match_data_signal.emit(match_status)
          time.sleep(5)  # Updates every 5 seconds
  \<close>
  \<open>run_tick\<close> is the loop body. The loop has no exit, so \<open>run\<close> never returns;
  \<open>run key ts w\<close> is the state it has reached after one pass for each element of
  \<open>ts\<close>, and the loop condition \<^verbatim>\<open>True\<close> reads nothing of the state.
\<close>

definition run_tick :: "string option \<Rightarrow> tick \<Rightarrow> world \<Rightarrow> world" where
  "run_tick key t w =
     (let (match_status, w1) = fetch_match_status key (network t) (deliver_stop t w);
          w2 = w1\<lparr>emitted := emitted w1 @ [match_status]\<rparr>
      in w2\<lparr>slept := slept w2 + 5\<rparr>)"

fun run :: "string option \<Rightarrow> tick list \<Rightarrow> world \<Rightarrow> world" where
  "run key [] w = w"
| "run key (t # ts) w = run key ts (run_tick key t w)"

text \<open>
  The module executes \<^verbatim>\<open>RIOT_API_KEY = load_api_key()\<close> when it is loaded, outside
  any handler, and later starts the tracker thread: an exception of
  \<^verbatim>\<open>load_api_key\<close> ends the program before a tracker exists.
\<close>

definition program :: "config_file \<Rightarrow> tick list \<Rightarrow> world \<Rightarrow> error + world" where
  "program cf ts w =
     (case load_api_key cf w of
        Inl e \<Rightarrow> Inl e
      | Inr (RIOT_API_KEY, w1) \<Rightarrow> Inr (run RIOT_API_KEY ts w1))"

subsection \<open>The specification's outcome model\<close>

text \<open>
  The specification describes a pass of the poller through a tagged value
  \<open>PollOutcome\<close> with the variants Active, Inactive and TransportError(detail), and a
  table \<open>classify\<close> from outcomes to messages. The source has neither: the messages are
  the literals of \<^verbatim>\<open>fetch_match_status\<close>. The definitions below follow the
  specification's words (its sections 4.2, step 3, and 4.3) and are compared with the
  source's function further down.
\<close>

datatype poll_outcome = Active | Inactive | TransportError string

definition spec_poll_outcome :: "http_outcome \<Rightarrow> poll_outcome" where
  "spec_poll_outcome r =
     (case r of
        Response code \<Rightarrow> (if code = 200 then Active else Inactive)
      | Raises detail \<Rightarrow> TransportError detail)"

definition spec_classify :: "poll_outcome \<Rightarrow> string" where
  "spec_classify p =
     (case p of
        Active \<Rightarrow> ''Match Active - Data Retrieved!''
      | Inactive \<Rightarrow> ''No Active Match Found.''
      | TransportError _ \<Rightarrow> ''Error fetching data.'')"

text \<open>Two outcomes of the same variant, whatever the detail of a transport error.\<close>

definition same_variant :: "poll_outcome \<Rightarrow> poll_outcome \<Rightarrow> bool" where
  "same_variant p q =
     (case p of
        Active \<Rightarrow> (case q of Active \<Rightarrow> True | _ \<Rightarrow> False)
      | Inactive \<Rightarrow> (case q of Inactive \<Rightarrow> True | _ \<Rightarrow> False)
      | TransportError _ \<Rightarrow> (case q of TransportError _ \<Rightarrow> True | _ \<Rightarrow> False))"

section \<open>Properties\<close>

subsection \<open>Strings\<close>

lemma startswith_iff: "startswith hay needle \<longleftrightarrow> (\<exists>post. hay = needle @ post)"
  by (induction hay needle rule: startswith.induct) auto

lemma str_in_iff: "str_in needle hay \<longleftrightarrow> (\<exists>pre post. hay = pre @ needle @ post)"
proof (induction hay)
  case Nil
  then show ?case by (simp add: startswith_iff)
next
  case (Cons h hs)
  show ?case
  proof
    assume "str_in needle (h # hs)"
    then consider "startswith (h # hs) needle" | "str_in needle hs" by auto
    then show "\<exists>pre post. h # hs = pre @ needle @ post"
    proof cases
      case 1
      then obtain post where "h # hs = needle @ post" by (auto simp: startswith_iff)
      then have "h # hs = [] @ needle @ post" by simp
      then show ?thesis by blast
    next
      case 2
      then obtain pre post where "hs = pre @ needle @ post" using Cons.IH by blast
      then have "h # hs = (h # pre) @ needle @ post" by simp
      then show ?thesis by blast
    qed
  next
    assume "\<exists>pre post. h # hs = pre @ needle @ post"
    then obtain pre post where eq: "h # hs = pre @ needle @ post" by blast
    show "str_in needle (h # hs)"
    proof (cases pre)
      case Nil
      with eq have "startswith (h # hs) needle" by (auto simp: startswith_iff)
      then show ?thesis by simp
    next
      case (Cons p ps)
      with eq have "hs = ps @ needle @ post" by simp
      then have "str_in needle hs" using Cons.IH by blast
      then show ?thesis by simp
    qed
  qed
qed

lemma str_in_marker_nonempty: "str_in marker k \<Longrightarrow> k \<noteq> []"
  by (cases k) (auto simp: marker_def)

lemma lstrip_hd: "lstrip s \<noteq> [] \<Longrightarrow> \<not> isspace (hd (lstrip s))"
  unfolding lstrip_def by (rule hd_dropWhile)

lemma rstrip_last: "rstrip s \<noteq> [] \<Longrightarrow> \<not> isspace (last (rstrip s))"
  unfolding rstrip_def by (simp add: last_rev hd_dropWhile)

lemma rstrip_hd: "\<not> isspace (hd s) \<Longrightarrow> rstrip s \<noteq> [] \<Longrightarrow> hd (rstrip s) = hd s"
proof (induction s)
  case Nil
  then show ?case by (simp add: rstrip_def)
next
  case (Cons c cs)
  have "rstrip (c # cs) = (if rstrip cs = [] \<and> isspace c then [] else c # rstrip cs)"
    by (auto simp: rstrip_def dropWhile_append)
  with Cons.prems show ?case by (auto split: if_splits)
qed

lemma strip_hd: "strip s \<noteq> [] \<Longrightarrow> \<not> isspace (hd (strip s))"
proof -
  assume ne: "strip s \<noteq> []"
  then have "lstrip s \<noteq> []" by (auto simp: strip_def rstrip_def)
  then have h: "\<not> isspace (hd (lstrip s))" by (rule lstrip_hd)
  from ne have "hd (strip s) = hd (lstrip s)"
    unfolding strip_def by (intro rstrip_hd[OF h])
  with h show ?thesis by simp
qed

lemma strip_last: "strip s \<noteq> [] \<Longrightarrow> \<not> isspace (last (strip s))"
  unfolding strip_def by (rule rstrip_last)

lemma lstrip_id: "s \<noteq> [] \<Longrightarrow> \<not> isspace (hd s) \<Longrightarrow> lstrip s = s"
  by (cases s) (auto simp: lstrip_def)

lemma rstrip_id: "s \<noteq> [] \<Longrightarrow> \<not> isspace (last s) \<Longrightarrow> rstrip s = s"
  by (cases "rev s") (auto simp: rstrip_def last_rev hd_rev)

lemma strip_idem: "strip (strip s) = strip s"
proof (cases "strip s = []")
  case True
  have "strip [] = []" by (simp add: strip_def lstrip_def rstrip_def)
  with True show ?thesis by simp
next
  case False
  then have "lstrip (strip s) = strip s" by (simp add: lstrip_id strip_hd)
  moreover have "rstrip (strip s) = strip s" using False by (simp add: rstrip_id strip_last)
  ultimately show ?thesis by (simp add: strip_def[of "strip s"])
qed

subsection \<open>\<^verbatim>\<open>load_api_key\<close>, case by case\<close>

lemma load_api_key_Document_string:
  "map_of d ''api_key'' = Some (JString s) \<Longrightarrow>
     load_api_key (Document (JObject d)) w =
       Inr (if strip s \<noteq> [] \<and> str_in marker (strip s) then Some (strip s) else None, w)"
  by (simp add: load_api_key_def dict_get_def)


lemma load_api_key_NoFile:
  "load_api_key NoFile w =
     Inr (None, debug_log ''Config file not found. Please update tracker_config.json.'' w)"
  by (simp add: load_api_key_def)

lemma load_api_key_Some:
  "load_api_key cf w = Inr (Some k, w') \<Longrightarrow> \<exists>s. k = strip s \<and> k \<noteq> [] \<and> str_in marker k"
  by (auto simp: load_api_key_def Let_def
      split: config_file.splits json.splits if_splits)

lemma load_api_key_world:
  "load_api_key cf w = Inr (r, w') \<Longrightarrow> cf \<noteq> NoFile \<Longrightarrow> w' = w"
  by (auto simp: load_api_key_def Let_def
      split: config_file.splits json.splits if_splits)

subsection \<open>\<^verbatim>\<open>fetch_match_status\<close> and \<^verbatim>\<open>run\<close>, step by step\<close>

lemma messages_distinct:
  "match_active \<noteq> no_active_match" "match_active \<noteq> error_fetching"
  "no_active_match \<noteq> error_fetching"
  by (simp_all add: match_active_def no_active_match_def error_fetching_def)

lemma fetch_match_status_Response:
  "net (status_request key) = Response c \<Longrightarrow>
     fetch_match_status key net w =
       (if c = 200 then match_active else no_active_match, w\<lparr>sent := sent w @ [status_request key]\<rparr>)"
  by (simp add: fetch_match_status_def Let_def)

lemma fetch_match_status_Raises:
  "net (status_request key) = Raises e \<Longrightarrow>
     fetch_match_status key net w =
       (error_fetching, debug_log (''API Error: '' @ e) (w\<lparr>sent := sent w @ [status_request key]\<rparr>))"
  by (simp add: fetch_match_status_def Let_def)

lemma fetch_match_status_fst:
  "fst (fetch_match_status key net w) =
     (case net (status_request key) of
        Response c \<Rightarrow> (if c = 200 then match_active else no_active_match)
      | Raises e \<Rightarrow> error_fetching)"
  by (cases "net (status_request key)")
    (simp_all add: fetch_match_status_Response fetch_match_status_Raises)

lemma fetch_match_status_fst_any_world:
  "fst (fetch_match_status key net w) = fst (fetch_match_status key net w')"
  by (simp add: fetch_match_status_fst)

lemma fetch_match_status_range:
  "fst (fetch_match_status key net w) \<in> {match_active, no_active_match, error_fetching}"
  by (cases "net (status_request key)") (simp_all add: fetch_match_status_fst)

lemma fetch_match_status_sent:
  "sent (snd (fetch_match_status key net w)) = sent w @ [status_request key]"
  by (cases "net (status_request key)")
    (simp_all add: fetch_match_status_Response fetch_match_status_Raises debug_log_def)

lemma fetch_match_status_emitted:
  "emitted (snd (fetch_match_status key net w)) = emitted w"
  by (cases "net (status_request key)")
    (simp_all add: fetch_match_status_Response fetch_match_status_Raises debug_log_def)

lemma run_tick_emitted:
  "emitted (run_tick key t w) = emitted w @ [fst (fetch_match_status key (network t) w)]"
proof -
  have "fst (fetch_match_status key (network t) (deliver_stop t w)) =
        fst (fetch_match_status key (network t) w)"
    by (rule fetch_match_status_fst_any_world)
  moreover have "emitted (snd (fetch_match_status key (network t) (deliver_stop t w))) = emitted w"
    by (simp add: fetch_match_status_emitted deliver_stop_def)
  ultimately show ?thesis
    by (simp add: run_tick_def Let_def split_beta)
qed

lemma run_emitted:
  "emitted (run key ts w) =
     emitted w @ map (\<lambda>t. fst (fetch_match_status key (network t) world0)) ts"
proof (induction ts arbitrary: w)
  case Nil
  show ?case by simp
next
  case (Cons t ts)
  have "fst (fetch_match_status key (network t) w) =
        fst (fetch_match_status key (network t) world0)"
    by (rule fetch_match_status_fst_any_world)
  with Cons show ?case
    by (simp add: run_tick_emitted)
qed

lemma run_tick_sent:
  "sent (run_tick key t w) = sent w @ [status_request key]"
  by (simp add: run_tick_def Let_def split_beta fetch_match_status_sent deliver_stop_def)

lemma run_sent:
  "sent (run key ts w) = sent w @ replicate (length ts) (status_request key)"
  by (induction ts arbitrary: w) (simp_all add: run_tick_sent replicate_app_Cons_same)

section \<open>The claims about \<^verbatim>\<open>fetch_match_status\<close> and \<^verbatim>\<open>run\<close>\<close>

subsection \<open>C1: a pass of the poller while no key was loaded\<close>

text \<open>
  C1 says that with an absent key (\<^verbatim>\<open>RIOT_API_KEY\<close> is \<^verbatim>\<open>None\<close>) every pass
  yields "Error fetching data." and issues no HTTP request. The function does not look at
  the key before it calls \<^verbatim>\<open>requests.get\<close>. With no configuration file and an
  endpoint that answers 403, the pass hands one request to \<^verbatim>\<open>requests.get\<close>, its
  header value \<^verbatim>\<open>None\<close>, and the message is "No Active Match Found.".
\<close>

theorem absent_token_still_requests:
  "load_api_key NoFile world0 =
     Inr (None, debug_log ''Config file not found. Please update tracker_config.json.'' world0) \<and>
   fst (fetch_match_status None (\<lambda>r. Response 403) world0) = ''No Active Match Found.'' \<and>
   sent (snd (fetch_match_status None (\<lambda>r. Response 403) world0)) =
     [\<lparr>url = ''https://americas.api.riotgames.com/valorant/v1/matches'',
       headers = [(''X-Riot-Token'', None)]\<rparr>]"
  by (simp add: load_api_key_def fetch_match_status_def Let_def status_request_def status_url_def
      no_active_match_def world0_def)

text \<open>
  C1 as amended: with an absent key \<^verbatim>\<open>fetch_match_status\<close> hands exactly one request
  to \<^verbatim>\<open>requests.get\<close> on every pass, the header value \<^verbatim>\<open>None\<close>, and the
  message is that of the request's outcome: "Error fetching data." exactly when the call
  raises, and otherwise the message of the status code. A program started without a
  configuration file has sent one such request per pass.
\<close>

theorem fetch_match_status_absent_token:
  "sent (snd (fetch_match_status None net w)) = sent w @ [status_request None] \<and>
   (fst (fetch_match_status None net w) = ''Error fetching data.'' \<longleftrightarrow>
      (\<exists>e. net (status_request None) = Raises e)) \<and>
   fst (fetch_match_status None net w) =
     (case net (status_request None) of
        Response c \<Rightarrow>
          (if c = 200 then ''Match Active - Data Retrieved!'' else ''No Active Match Found.'')
      | Raises e \<Rightarrow> ''Error fetching data.'') \<and>
   (\<exists>w'. program NoFile ts w = Inr w' \<and>
      sent w' = sent w @ replicate (length ts) (status_request None))"
proof -
  have "\<exists>w'. program NoFile ts w = Inr w' \<and>
      sent w' = sent w @ replicate (length ts) (status_request None)"
    by (simp add: program_def load_api_key_NoFile run_sent debug_log_def)
  then show ?thesis
    by (cases "net (status_request None)")
      (simp_all add: fetch_match_status_Response fetch_match_status_Raises debug_log_def
        match_active_def no_active_match_def error_fetching_def)
qed

theorem fetch_match_status_absent_token_witness:
  "sent (snd (fetch_match_status None (\<lambda>r. Raises ''timed out'') world0)) =
     [status_request None] \<and>
   fst (fetch_match_status None (\<lambda>r. Raises ''timed out'') world0) = ''Error fetching data.''"
  using fetch_match_status_absent_token
    [where net = "\<lambda>r. Raises ''timed out''" and w = world0]
  by (simp add: world0_def)

subsection \<open>C2: the three messages\<close>

text \<open>
  C2: with a key present, a response with status code 200 yields exactly
  "Match Active - Data Retrieved!", a response with any other status code yields exactly
  "No Active Match Found.", and an exception of the request yields exactly
  "Error fetching data." while the text of the exception goes to the diagnostics (one
  console line, one log record); there is no fourth message.
\<close>

theorem fetch_match_status_present_token:
  "(net (status_request (Some k)) = Response 200 \<longrightarrow>
      fst (fetch_match_status (Some k) net w) = ''Match Active - Data Retrieved!'') \<and>
   (\<forall>c. c \<noteq> 200 \<longrightarrow> net (status_request (Some k)) = Response c \<longrightarrow>
      fst (fetch_match_status (Some k) net w) = ''No Active Match Found.'') \<and>
   (\<forall>e. net (status_request (Some k)) = Raises e \<longrightarrow>
      fst (fetch_match_status (Some k) net w) = ''Error fetching data.'' \<and>
      console (snd (fetch_match_status (Some k) net w)) =
        console w @ [''[DEBUG]: API Error: '' @ e] \<and>
      logfile (snd (fetch_match_status (Some k) net w)) =
        logfile w @ [(''DEBUG'', ''API Error: '' @ e)]) \<and>
   fst (fetch_match_status (Some k) net w) \<in>
     {''Match Active - Data Retrieved!'', ''No Active Match Found.'', ''Error fetching data.''}"
  by (cases "net (status_request (Some k))")
    (simp_all add: fetch_match_status_Response fetch_match_status_Raises debug_log_def
      match_active_def no_active_match_def error_fetching_def)

theorem fetch_match_status_present_token_witness:
  "fst (fetch_match_status (Some ''RGAPI-1'') (\<lambda>r. Response 200) world0) =
     ''Match Active - Data Retrieved!'' \<and>
   fst (fetch_match_status (Some ''RGAPI-1'') (\<lambda>r. Response 404) world0) =
     ''No Active Match Found.'' \<and>
   fst (fetch_match_status (Some ''RGAPI-1'') (\<lambda>r. Raises ''timed out'') world0) =
     ''Error fetching data.'' \<and>
   logfile (snd (fetch_match_status (Some ''RGAPI-1'') (\<lambda>r. Raises ''timed out'') world0)) =
     [(''DEBUG'', ''API Error: timed out'')]"
  using
    fetch_match_status_present_token
      [where k = "''RGAPI-1''" and net = "\<lambda>r. Response 200" and w = world0]
    fetch_match_status_present_token
      [where k = "''RGAPI-1''" and net = "\<lambda>r. Response 404" and w = world0]
    fetch_match_status_present_token
      [where k = "''RGAPI-1''" and net = "\<lambda>r. Raises ''timed out''" and w = world0]
  by (simp add: world0_def)

subsection \<open>C3: one emission per pass\<close>

text \<open>
  C3: every pass of the loop of \<^verbatim>\<open>run\<close> emits exactly one message on the signal,
  whatever the request did. For one pass: the emissions after it are those before it
  followed by the one message of \<^verbatim>\<open>fetch_match_status\<close>, which is one of the
  three; a pass whose request raises emits "Error fetching data." like any other, so the
  exception does not leave \<^verbatim>\<open>fetch_match_status\<close> and the loop goes on. For
  \<^verbatim>\<open>run\<close> itself: after any number of passes the emissions are those before the
  first pass followed by one message per pass, in the order of the passes, each the
  message of that pass's outcome (200, another status code, an exception); no pass is
  dropped and none emits twice.
\<close>

theorem run_publishes_every_tick:
  "emitted (run_tick key t w) = emitted w @ [fst (fetch_match_status key (network t) w)] \<and>
   fst (fetch_match_status key (network t) w) \<in>
     {''Match Active - Data Retrieved!'', ''No Active Match Found.'', ''Error fetching data.''} \<and>
   (\<forall>e. network t (status_request key) = Raises e \<longrightarrow>
      emitted (run_tick key t w) = emitted w @ [''Error fetching data.'']) \<and>
   emitted (run key ts w) =
     emitted w @
     map (\<lambda>t. case network t (status_request key) of
                 Response c \<Rightarrow>
                   (if c = 200 then ''Match Active - Data Retrieved!''
                    else ''No Active Match Found.'')
               | Raises e \<Rightarrow> ''Error fetching data.'') ts \<and>
   length (emitted (run key ts w)) = length (emitted w) + length ts"
proof -
  have "fst (fetch_match_status key (network t) w) \<in>
     {''Match Active - Data Retrieved!'', ''No Active Match Found.'', ''Error fetching data.''}"
    using fetch_match_status_range [of key "network t" w]
    by (simp add: match_active_def no_active_match_def error_fetching_def)
  moreover have "emitted (run_tick key t w) = emitted w @ [''Error fetching data.'']"
    if "network t (status_request key) = Raises e" for e
    using that by (simp add: run_tick_emitted fetch_match_status_fst error_fetching_def)
  moreover have "emitted (run key ts w) =
     emitted w @
     map (\<lambda>t. case network t (status_request key) of
                 Response c \<Rightarrow>
                   (if c = 200 then ''Match Active - Data Retrieved!''
                    else ''No Active Match Found.'')
               | Raises e \<Rightarrow> ''Error fetching data.'') ts"
  proof -
    have "fst (fetch_match_status key n v) =
       (case n (status_request key) of
          Response c \<Rightarrow>
            (if c = 200 then ''Match Active - Data Retrieved!''
             else ''No Active Match Found.'')
        | Raises e \<Rightarrow> ''Error fetching data.'')" for n v
      by (cases "n (status_request key)")
        (simp_all add: fetch_match_status_fst match_active_def no_active_match_def
          error_fetching_def)
    then show ?thesis
      by (simp add: run_emitted)
  qed
  ultimately show ?thesis
    by (simp add: run_tick_emitted)
qed

theorem run_publishes_every_tick_witness:
  "emitted (run_tick None \<lparr>network = (\<lambda>r. Raises ''timed out''), stop_requested = False\<rparr> world0)
     = [''Error fetching data.''] \<and>
   emitted (run None
     [\<lparr>network = (\<lambda>r. Raises ''timed out''), stop_requested = False\<rparr>,
      \<lparr>network = (\<lambda>r. Response 200), stop_requested = False\<rparr>,
      \<lparr>network = (\<lambda>r. Response 503), stop_requested = False\<rparr>] world0) =
     [''Error fetching data.'', ''Match Active - Data Retrieved!'', ''No Active Match Found.''] \<and>
   length (emitted (run None
     [\<lparr>network = (\<lambda>r. Raises ''timed out''), stop_requested = False\<rparr>,
      \<lparr>network = (\<lambda>r. Response 200), stop_requested = False\<rparr>,
      \<lparr>network = (\<lambda>r. Response 503), stop_requested = False\<rparr>] world0)) = 3"
  using run_publishes_every_tick
    [where key = None and w = world0
       and t = "\<lparr>network = (\<lambda>r. Raises ''timed out''), stop_requested = False\<rparr>"
       and ts = "[\<lparr>network = (\<lambda>r. Raises ''timed out''), stop_requested = False\<rparr>,
                 \<lparr>network = (\<lambda>r. Response 200), stop_requested = False\<rparr>,
                 \<lparr>network = (\<lambda>r. Response 503), stop_requested = False\<rparr>]"]
  by (auto simp add: world0_def simp del: run.simps)

subsection \<open>C8: stopping the poller\<close>

text \<open>
  C8 says that after a cancellation signal at most the pass under way completes and
  nothing more is emitted. The loop of \<^verbatim>\<open>run\<close> is \<^verbatim>\<open>while True\<close> and reads
  no flag: with a stop requested during the first of three passes, all three emit.
\<close>

theorem run_publishes_after_stop:
  "emitted (run None
     [\<lparr>network = (\<lambda>r. Response 404), stop_requested = True\<rparr>,
      \<lparr>network = (\<lambda>r. Response 404), stop_requested = False\<rparr>,
      \<lparr>network = (\<lambda>r. Response 200), stop_requested = False\<rparr>] world0) =
   [''No Active Match Found.'', ''No Active Match Found.'', ''Match Active - Data Retrieved!'']"
  by (simp add: run_tick_def fetch_match_status_def deliver_stop_def Let_def
      match_active_def no_active_match_def world0_def)

text \<open>
  C8 as amended: \<^verbatim>\<open>run\<close> has no cancellation mechanism. Every pass emits the
  message of its request whether or not a stop was requested before or during it: the
  emissions are those of the requests' outcomes alone, and two runs that meet the same
  networks emit the same messages whatever the stop requests and the interruption flag.
\<close>

theorem run_ignores_stop_requests:
  "emitted (run key ts w) =
     emitted w @ map (\<lambda>t. fst (fetch_match_status key (network t) world0)) ts \<and>
   (map network ts = map network ts' \<longrightarrow>
      emitted (run key ts (w\<lparr>interruption_requested := b\<rparr>)) = emitted (run key ts' w))"
proof -
  let ?msg = "\<lambda>n. fst (fetch_match_status key n world0)"
  have "map (\<lambda>t. ?msg (network t)) ts = map (\<lambda>t. ?msg (network t)) ts'"
    if eq: "map network ts = map network ts'"
  proof -
    have "map (\<lambda>t. ?msg (network t)) ts = map ?msg (map network ts)"
      by (simp add: comp_def)
    also have "\<dots> = map ?msg (map network ts')"
      using eq by simp
    also have "\<dots> = map (\<lambda>t. ?msg (network t)) ts'"
      by (simp add: comp_def)
    finally show ?thesis .
  qed
  then show ?thesis
    by (simp add: run_emitted)
qed

theorem run_ignores_stop_requests_witness:
  "emitted (run None
     [\<lparr>network = (\<lambda>r. Response 200), stop_requested = True\<rparr>,
      \<lparr>network = (\<lambda>r. Response 200), stop_requested = False\<rparr>]
     (world0\<lparr>interruption_requested := True\<rparr>)) =
   emitted (run None
     [\<lparr>network = (\<lambda>r. Response 200), stop_requested = False\<rparr>,
      \<lparr>network = (\<lambda>r. Response 200), stop_requested = False\<rparr>] world0) \<and>
   emitted (run None
     [\<lparr>network = (\<lambda>r. Response 200), stop_requested = True\<rparr>,
      \<lparr>network = (\<lambda>r. Response 200), stop_requested = False\<rparr>] world0) =
   [''Match Active - Data Retrieved!'', ''Match Active - Data Retrieved!'']"
  using run_ignores_stop_requests
    [where key = None and w = world0 and b = True
       and ts = "[\<lparr>network = (\<lambda>r. Response 200), stop_requested = True\<rparr>,
                 \<lparr>network = (\<lambda>r. Response 200), stop_requested = False\<rparr>]"
       and ts' = "[\<lparr>network = (\<lambda>r. Response 200), stop_requested = False\<rparr>,
                  \<lparr>network = (\<lambda>r. Response 200), stop_requested = False\<rparr>]"]
  by (simp add: run_tick_def fetch_match_status_def deliver_stop_def Let_def
      match_active_def world0_def)

subsection \<open>C9: the message is a function of the outcome\<close>

text \<open>
  C9: the message of a pass is the specification's \<open>classify\<close> of the outcome of the
  request, for every key, network and state; it is always one of the three messages;
  and two passes whose outcomes are of the same variant (both 200, both another status
  code, both an exception) return the same message.
\<close>

theorem status_message_total_deterministic:
  "fst (fetch_match_status key net w) =
     spec_classify (spec_poll_outcome (net (status_request key))) \<and>
   fst (fetch_match_status key net w) \<in>
     {''Match Active - Data Retrieved!'', ''No Active Match Found.'', ''Error fetching data.''} \<and>
   (same_variant (spec_poll_outcome (net (status_request key)))
                 (spec_poll_outcome (net' (status_request key'))) \<longrightarrow>
      fst (fetch_match_status key net w) = fst (fetch_match_status key' net' w'))"
proof -
  have refines: "fst (fetch_match_status k n v) =
      spec_classify (spec_poll_outcome (n (status_request k)))" for k n v
    by (cases "n (status_request k)")
      (simp_all add: fetch_match_status_fst spec_classify_def spec_poll_outcome_def
        match_active_def no_active_match_def error_fetching_def)
  have "spec_classify p = spec_classify q" if "same_variant p q" for p q
    using that by (cases p; cases q) (simp_all add: spec_classify_def same_variant_def)
  moreover have "spec_classify p \<in>
     {''Match Active - Data Retrieved!'', ''No Active Match Found.'', ''Error fetching data.''}" for p
    by (cases p) (simp_all add: spec_classify_def)
  ultimately show ?thesis
    by (simp add: refines)
qed

theorem status_message_total_deterministic_witness:
  "same_variant (spec_poll_outcome (Raises ''timed out''))
                (spec_poll_outcome (Raises ''connection refused'')) \<and>
   fst (fetch_match_status (Some ''RGAPI-1'') (\<lambda>r. Raises ''timed out'') world0) =
   fst (fetch_match_status None (\<lambda>r. Raises ''connection refused'')
         (debug_log ''earlier'' world0)) \<and>
   fst (fetch_match_status (Some ''RGAPI-1'') (\<lambda>r. Raises ''timed out'') world0) =
     ''Error fetching data.''"
  using status_message_total_deterministic
    [where key = "Some ''RGAPI-1''" and net = "\<lambda>r. Raises ''timed out''" and w = world0
       and key' = None and net' = "\<lambda>r. Raises ''connection refused''"
       and w' = "debug_log ''earlier'' world0"]
  by (auto simp add: spec_poll_outcome_def same_variant_def spec_classify_def)

section \<open>The claims about \<^verbatim>\<open>load_api_key\<close>\<close>

subsection \<open>C4: a configuration file that is absent or malformed\<close>




subsection \<open>C5: when the result is \<^verbatim>\<open>None\<close>\<close>




subsection \<open>C6: diagnostics of a result \<^verbatim>\<open>None\<close>\<close>

text \<open>
  C6 says that every run of \<^verbatim>\<open>load_api_key\<close> that returns \<^verbatim>\<open>None\<close> emits exactly
  one diagnostic message. The only call of \<^verbatim>\<open>debug_log\<close> is in the branch of the
  missing file: a configuration without the field returns \<^verbatim>\<open>None\<close> and writes
  nothing, and so does one whose field lacks the marker.
\<close>

theorem load_api_key_silent_absent:
  "load_api_key (Document (JObject [])) world0 = Inr (None, world0) \<and>
   load_api_key (Document (JObject [(''api_key'', JString ''abc'')])) world0 = Inr (None, world0) \<and>
   console world0 = [] \<and> logfile world0 = []"
  by (simp add: load_api_key_def dict_get_def strip_def lstrip_def rstrip_def isspace_def
      whitespace_def marker_def world0_def)

text \<open>
  C6 as amended: a run of \<^verbatim>\<open>load_api_key\<close> that returns emits exactly one diagnostic
  message (one console line and one log record) when the configuration file does not
  exist, and then returns \<^verbatim>\<open>None\<close>; on every other return, also of \<^verbatim>\<open>None\<close> for
  a missing or empty field or a failed marker check, it emits none.
\<close>

theorem load_api_key_diagnostics:
  "load_api_key cf w = Inr (r, w') \<Longrightarrow>
     (if cf = NoFile
      then r = None \<and>
           console w' = console w @
             [''[DEBUG]: Config file not found. Please update tracker_config.json.''] \<and>
           logfile w' = logfile w @
             [(''DEBUG'', ''Config file not found. Please update tracker_config.json.'')]
      else console w' = console w \<and> logfile w' = logfile w)"
  using load_api_key_world [of cf w r w']
  by (auto simp add: load_api_key_NoFile debug_log_def)

theorem load_api_key_diagnostics_witness:
  "load_api_key NoFile world0 =
     Inr (None, debug_log ''Config file not found. Please update tracker_config.json.'' world0) \<and>
   logfile (debug_log ''Config file not found. Please update tracker_config.json.'' world0) =
     [(''DEBUG'', ''Config file not found. Please update tracker_config.json.'')] \<and>
   console (debug_log ''Config file not found. Please update tracker_config.json.'' world0) =
     [''[DEBUG]: Config file not found. Please update tracker_config.json.'']"
proof -
  have h: "load_api_key NoFile world0 =
     Inr (None, debug_log ''Config file not found. Please update tracker_config.json.'' world0)"
    by (simp add: load_api_key_def)
  from load_api_key_diagnostics [OF h] h show ?thesis
    by (simp add: world0_def)
qed

subsection \<open>C7: where the marker stands\<close>

text \<open>
  C7 says that a candidate is returned only when it starts with the marker "RGAPI-", and
  that one which has the marker elsewhere is rejected. The source tests
  \<^verbatim>\<open>"RGAPI-" in api_key\<close>: the candidate "xRGAPI-1" does not start with the marker
  and is returned.
\<close>

theorem load_api_key_accepts_inner_marker:
  "load_api_key (Document (JObject [(''api_key'', JString ''xRGAPI-1'')])) world0
     = Inr (Some ''xRGAPI-1'', world0) \<and>
   \<not> startswith ''xRGAPI-1'' ''RGAPI-''"
  by (simp add: load_api_key_def dict_get_def strip_def lstrip_def rstrip_def isspace_def
      whitespace_def marker_def)

text \<open>
  C7 as amended: a candidate (the string under \<^verbatim>\<open>api_key\<close>) is returned, trimmed,
  exactly when the trimmed candidate contains the marker "RGAPI-" at some position, the
  start or elsewhere (it is then not empty); every other candidate gives \<^verbatim>\<open>None\<close>.
\<close>

theorem load_api_key_marker_check:
  "map_of d ''api_key'' = Some (JString s) \<Longrightarrow>
   load_api_key (Document (JObject d)) w =
     Inr (if str_in ''RGAPI-'' (strip s) then Some (strip s) else None, w) \<and>
   (str_in ''RGAPI-'' (strip s) \<longleftrightarrow> (\<exists>pre post. strip s = pre @ ''RGAPI-'' @ post))"
proof -
  assume field: "map_of d ''api_key'' = Some (JString s)"
  have "strip s \<noteq> []" if "str_in marker (strip s)"
    using that by (rule str_in_marker_nonempty)
  with field have "load_api_key (Document (JObject d)) w =
     Inr (if str_in marker (strip s) then Some (strip s) else None, w)"
    by (auto simp add: load_api_key_Document_string)
  moreover have "str_in marker (strip s) \<longleftrightarrow> (\<exists>pre post. strip s = pre @ marker @ post)"
    by (rule str_in_iff)
  ultimately show ?thesis
    by (simp add: marker_def)
qed

theorem load_api_key_marker_check_witness:
  "load_api_key (Document (JObject [(''api_key'', JString '' my-RGAPI-1 '')])) world0 =
     Inr (Some ''my-RGAPI-1'', world0) \<and>
   (\<exists>pre post. ''my-RGAPI-1'' = pre @ ''RGAPI-'' @ post)"
proof -
  have field: "map_of [(''api_key'', JString '' my-RGAPI-1 '')] ''api_key'' =
      Some (JString '' my-RGAPI-1 '')"
    by simp
  from load_api_key_marker_check [OF field, where w = world0] show ?thesis
    by (simp add: strip_def lstrip_def rstrip_def isspace_def whitespace_def)
qed

subsection \<open>C10: the invariant of a returned key\<close>

text \<open>
  C10: a key that \<^verbatim>\<open>load_api_key\<close> returns is not empty, neither begins nor ends
  with whitespace (trimming it again changes nothing), and contains "RGAPI-"; the empty
  string is never returned.
\<close>

theorem load_api_key_token_invariant:
  "load_api_key cf w = Inr (Some k, w') \<Longrightarrow>
     k \<noteq> [] \<and> \<not> isspace (hd k) \<and> \<not> isspace (last k) \<and> strip k = k \<and>
     str_in ''RGAPI-'' k \<and> (\<exists>pre post. k = pre @ ''RGAPI-'' @ post)"
proof -
  assume "load_api_key cf w = Inr (Some k, w')"
  then obtain s where k: "k = strip s" and ne: "k \<noteq> []" and m: "str_in marker k"
    using load_api_key_Some by blast
  from k ne have "\<not> isspace (hd k)" "\<not> isspace (last k)"
    by (simp_all add: strip_hd strip_last)
  moreover from k have "strip k = k"
    by (simp add: strip_idem)
  moreover from m have "str_in ''RGAPI-'' k"
    by (simp add: marker_def)
  moreover from m have "\<exists>pre post. k = pre @ ''RGAPI-'' @ post"
    by (simp add: str_in_iff marker_def)
  ultimately show ?thesis
    using ne by blast
qed

theorem load_api_key_token_invariant_witness:
  "load_api_key (Document (JObject [(''api_key'', JString '' RGAPI-abc '')])) world0 =
     Inr (Some ''RGAPI-abc'', world0) \<and>
   \<not> isspace (hd ''RGAPI-abc'') \<and> \<not> isspace (last ''RGAPI-abc'') \<and>
   strip ''RGAPI-abc'' = ''RGAPI-abc'' \<and> str_in ''RGAPI-'' ''RGAPI-abc''"
proof -
  have h: "load_api_key (Document (JObject [(''api_key'', JString '' RGAPI-abc '')])) world0 =
     Inr (Some ''RGAPI-abc'', world0)"
    by (simp add: load_api_key_def dict_get_def strip_def lstrip_def rstrip_def isspace_def
        whitespace_def marker_def)
  from load_api_key_token_invariant [OF h] h show ?thesis
    by simp
qed

end
